theory Spec2Isabelle
  imports Main "HOL-Library.Word"
begin

unbundle bit_operations_syntax

section \<open>Common data of the stack\<close>

text \<open>
  A bytearray holds integers in \<open>range(256)\<close>: a list of 8-bit words. Several layers
  receive a bytearray by reference and write into it, so bytearray objects live in a
  store indexed by object identity; a function that mutates a buffer returns the new
  store.
\<close>

type_synonym byte = "8 word"
type_synonym obj = nat
type_synonym store = "obj \<Rightarrow> byte list"

definition empty_store :: store where
  "empty_store = (\<lambda>_. [])"

text \<open>The exceptions the modelled code raises, as values.\<close>

datatype error =
    IndexError
  | ValueError
  | TypeError
  | AttributeError
  | N_GDSValueError
  | DPTValueError
  | DatapointValueError
  | DPTXlatorValueError
  | OtherError string

text \<open>
  Modelled from the spec: the value types GroupAddress, IndividualAddress and Priority
  (modules \<open>groupAddress\<close>, \<open>individualAddress\<close> and \<open>priority\<close> are not part of the
  sources). A group address is normalised to a 16-bit value and \<open>isNull\<close> holds iff
  that value is 0; a priority is one of system, urgent, normal, low.
\<close>

datatype groupAddress = GroupAddress (ga_raw: "16 word")
datatype individualAddress = IndividualAddress (ia_raw: "16 word")
datatype priority = System | Urgent | Normal | Low

definition isNull :: "groupAddress \<Rightarrow> bool" where
  "isNull gad = (ga_raw gad = 0)"

section \<open>Layer 4: \<open>T_GroupDataService\<close>\<close>

definition UNNUMBERED_DATA :: byte where
  "UNNUMBERED_DATA = 0x00"

definition NUMBERED_DATA :: byte where
  "NUMBERED_DATA = 0x40"

text \<open>
  \<open>_tgdl\<close> is \<open>None\<close> until \<open>setListener\<close> stores the application listener. A call
  \<open>self._tgdl.groupDataInd(src, gad, priority, tSDU)\<close> is recorded with the identity of
  the bytearray it passes.
\<close>

record T_GroupDataService =
  tgdl :: "obj option"

datatype t_call = T_GroupDataInd obj individualAddress groupAddress priority obj

definition T_setListener :: "T_GroupDataService \<Rightarrow> obj \<Rightarrow> T_GroupDataService" where
  "T_setListener self l = self\<lparr>tgdl := Some l\<rparr>"

text \<open>
  \<open>T_GroupDataService.groupDataInd\<close>. The result is the exception raised (if any), the
  calls made on the listener, and the store after the call. \<open>tPDU[0]\<close> on an empty
  bytearray raises IndexError. \<open>tSDU = tPDU\<close> binds a second name to the same object,
  and \<open>tSDU[0] &= 0x3f\<close> stores into it.
\<close>

definition T_groupDataInd ::
  "T_GroupDataService \<Rightarrow> individualAddress \<Rightarrow> groupAddress \<Rightarrow> priority \<Rightarrow> obj \<Rightarrow> store
     \<Rightarrow> error option \<times> t_call list \<times> store" where
  "T_groupDataInd self src gad prio tPDU st =
     (case tgdl self of
        None \<Rightarrow> (None, [], st)
      | Some l \<Rightarrow>
          (case st tPDU of
             [] \<Rightarrow> (Some IndexError, [], st)
           | b0 # rest \<Rightarrow>
               (let tPCI = b0 AND 0xc0 in
                if tPCI = UNNUMBERED_DATA then
                  (let tSDU = tPDU;
                       st' = st(tSDU := (b0 AND 0x3f) # rest)
                   in (None, [T_GroupDataInd l src gad prio tSDU], st'))
                else (None, [], st))))"

section \<open>Layer 3: \<open>N_GroupDataService\<close>\<close>

text \<open>
  Modelled from the spec: the data-link frame \<open>CEMILData\<close> (module \<open>cemiLData\<close> is not
  part of the sources), with the fields the network layer reads and writes: message
  code, source and destination address, priority, hop count and the network payload
  \<open>npdu\<close>. The spec tells the frame-indication code from the request code; their
  numeric values are not needed here.
\<close>

datatype messageCode = MC_LDATA_REQ | MC_LDATA_CON | MC_LDATA_IND

datatype address = GroupAddr groupAddress | IndividualAddr individualAddress

record CEMILData =
  messageCode :: messageCode
  sourceAddress :: individualAddress
  destinationAddress :: address
  priority :: priority
  hopCount :: int
  npdu :: "byte list"

text \<open>The bytearray operations \<open>groupDataReq\<close> uses, with the errors Python raises.\<close>

definition bytearray_zeros :: "nat \<Rightarrow> byte list" where
  "bytearray_zeros n = replicate n 0"

definition setitem :: "byte list \<Rightarrow> nat \<Rightarrow> int \<Rightarrow> error + byte list" where
  "setitem xs i v =
     (if length xs \<le> i then Inl IndexError
      else if v < 0 \<or> 255 < v then Inl ValueError
      else Inr (xs[i := word_of_int v]))"

definition setslice_from :: "byte list \<Rightarrow> nat \<Rightarrow> byte list \<Rightarrow> byte list" where
  "setslice_from xs i ys = take i xs @ ys"

record N_GroupDataService =
  lds :: obj
  ngdl :: "obj option"
  n_hopCount :: int

datatype n_call = N_GroupDataInd obj individualAddress groupAddress priority "byte list"
datatype l_call = L_DataReq obj CEMILData

definition N_init :: "obj \<Rightarrow> int \<Rightarrow> error + N_GroupDataService" where
  "N_init l hc =
     (if \<not> (0 < hc \<and> hc < 7) then Inl N_GDSValueError
      else Inr \<lparr>lds = l, ngdl = None, n_hopCount = hc\<rparr>)"

definition N_setListener :: "N_GroupDataService \<Rightarrow> obj \<Rightarrow> N_GroupDataService" where
  "N_setListener self l = self\<lparr>ngdl := Some l\<rparr>"

text \<open>
  \<open>N_GroupDataService.dataInd\<close>: the calls made on the listener. \<open>cEMI.npdu[1:]\<close> is
  a new bytearray without the first byte (empty when \<open>npdu\<close> is).
\<close>

definition N_dataInd :: "N_GroupDataService \<Rightarrow> CEMILData \<Rightarrow> n_call list" where
  "N_dataInd self cEMI =
     (case ngdl self of
        None \<Rightarrow> []
      | Some l \<Rightarrow>
          (let src = sourceAddress cEMI;
               dest = destinationAddress cEMI;
               prio = priority cEMI;
               nSDU = drop 1 (npdu cEMI)
           in case dest of
                GroupAddr g \<Rightarrow> if \<not> isNull g then [N_GroupDataInd l src g prio nSDU] else []
              | IndividualAddr _ \<Rightarrow> []))"

text \<open>
  \<open>N_GroupDataService.groupDataReq\<close>. \<open>blank\<close> is the frame \<open>CEMILData()\<close> builds and
  \<open>dataReq\<close> stands for what \<open>self._lds.dataReq\<close> returns (layer 2 is not part of the
  sources). The result is the exception raised here or the value returned, and the
  calls made on layer 2. \<open>nPDU[0] = len(nSDU) - 1\<close> raises ValueError unless the
  integer is in \<open>range(256)\<close>.
\<close>

definition N_groupDataReq ::
  "(CEMILData \<Rightarrow> 'r) \<Rightarrow> N_GroupDataService \<Rightarrow> CEMILData \<Rightarrow> groupAddress \<Rightarrow> priority
     \<Rightarrow> byte list \<Rightarrow> (error + 'r) \<times> l_call list" where
  "N_groupDataReq dataReq self blank gad prio nSDU =
     (if isNull gad then (Inl N_GDSValueError, [])
      else
        (let cEMI = blank\<lparr>messageCode := MC_LDATA_IND,
                           destinationAddress := GroupAddr gad,
                           priority := prio,
                           hopCount := n_hopCount self\<rparr>;
             nPDU = bytearray_zeros (length nSDU + 1)
         in case setitem nPDU 0 (int (length nSDU) - 1) of
              Inl e \<Rightarrow> (Inl e, [])
            | Inr nPDU1 \<Rightarrow>
                (let nPDU2 = setslice_from nPDU1 1 nSDU;
                     cEMI' = cEMI\<lparr>npdu := nPDU2\<rparr>
                 in (Inr (dataReq cEMI'), [L_DataReq (lds self) cEMI']))))"

section \<open>Datapoint types: \<open>DPT\<close>\<close>

text \<open>
  The Python values a caller passes as \<open>limits\<close>: the docstring asks for a tuple of
  int, float or str, the test passes a bare int. Floats are carried, never computed
  with, so their representation is a type parameter.
\<close>

datatype 'f pyobj =
    PyNone
  | PyBool bool
  | PyInt int
  | PyFloat 'f
  | PyStr string
  | PyTuple "'f pyobj list"
  | PyList "'f pyobj list"

text \<open>
  Iterating a Python value: tuples and lists yield their items, a string yields its
  characters as one-character strings, and \<open>None\<close>, booleans and numbers are not
  iterable. \<open>tuple(x)\<close> collects the items and raises TypeError when there is no
  iterator.
\<close>

fun py_iter :: "'f pyobj \<Rightarrow> 'f pyobj list option" where
  "py_iter (PyTuple xs) = Some xs"
| "py_iter (PyList xs) = Some xs"
| "py_iter (PyStr s) = Some (map (\<lambda>c. PyStr [c]) s)"
| "py_iter PyNone = None"
| "py_iter (PyBool _) = None"
| "py_iter (PyInt _) = None"
| "py_iter (PyFloat _) = None"

definition py_tuple :: "'f pyobj \<Rightarrow> error + 'f pyobj list" where
  "py_tuple x = (case py_iter x of None \<Rightarrow> Inl TypeError | Some xs \<Rightarrow> Inr xs)"

text \<open>
  Modelled from the spec: \<open>DPTID\<close> (module \<open>dptId\<close> is not part of the sources) is a
  "main.sub" pair whose generic form is "main.xxx". What its constructor accepts is
  not specified, so the constructor is a parameter \<open>mkDPTID\<close> wherever a string is
  turned into a DPTID.
\<close>

datatype DPTID = DPTID (main: string) (sub: string)

definition generic :: "DPTID \<Rightarrow> DPTID" where
  "generic i = DPTID (main i) ''xxx''"

datatype dptIdArg = OfDPTID DPTID | OfStr string

definition as_DPTID :: "(string \<Rightarrow> error + DPTID) \<Rightarrow> dptIdArg \<Rightarrow> error + DPTID" where
  "as_DPTID mkDPTID a = (case a of OfDPTID i \<Rightarrow> Inr i | OfStr s \<Rightarrow> mkDPTID s)"

record 'f DPT =
  dpt_id :: DPTID
  dpt_desc :: string
  dpt_limits :: "'f pyobj list"
  dpt_unit :: "string option"

text \<open>
  \<open>DPT.__init__\<close>: the id is resolved first; \<open>tuple(limits)\<close> is tried and a TypeError
  becomes \<open>DPTValueError\<close>.
\<close>

definition DPT_init ::
  "(string \<Rightarrow> error + DPTID) \<Rightarrow> dptIdArg \<Rightarrow> string \<Rightarrow> 'f pyobj \<Rightarrow> string option
     \<Rightarrow> error + 'f DPT" where
  "DPT_init mkDPTID dptId desc limits unit =
     (case as_DPTID mkDPTID dptId of
        Inl e \<Rightarrow> Inl e
      | Inr i \<Rightarrow>
          (case py_tuple limits of
             Inl e \<Rightarrow> if e = TypeError then Inl DPTValueError else Inl e
           | Inr t \<Rightarrow> Inr \<lparr>dpt_id = i, dpt_desc = desc, dpt_limits = t, dpt_unit = unit\<rparr>))"

section \<open>\<open>Stack.start\<close>\<close>

text \<open>
  Modelled from the spec: \<open>Flags\<close> (module \<open>flags\<close> is not part of the sources, its
  test is) is a string over the letters CRWTUIS with one boolean accessor per letter;
  \<open>init\<close> is the accessor of the letter I.
\<close>

datatype Flags = Flags (raw: string)

definition init :: "Flags \<Rightarrow> bool" where
  "init f = (CHR ''I'' \<in> set (raw f))"

text \<open>
  Modelled from the spec: the Groups of the application layer (layer 7 is not part of
  the sources). The layer keeps a mapping from group address to Group, and a Group
  holds its listeners in subscription order. \<open>groups.values()\<close> walks the dict in
  insertion order, so the dict is an association list and a Group is known by its key.
  A listener is a GroupObject carrying flags, or some other object, on which
  \<open>listener.flags.init\<close> raises AttributeError.
\<close>

datatype listener = GroupObject Flags | NotGroupObject

record Group =
  listeners :: "listener list"

record Stack =
  agds_groups :: "(groupAddress \<times> Group) list"

datatype stack_event =
    Log_trace
  | Log_debug
  | Log_exception
  | Lds_start
  | Tc_start
  | Sleep nat
  | Group_read groupAddress priority



text \<open>
  The inner loop of \<open>Stack.start\<close> over the listeners of one group; \<open>p\<close> is the
  priority \<open>Priority()\<close> builds. The \<open>try\<close> encloses the test of the flag, the read,
  the sleep and the \<open>break\<close>: an AttributeError, from the flags or from the read, is
  logged and the loop goes on with the next listener; any other exception leaves
  \<open>start\<close>. Sleeps are in milliseconds.
\<close>

fun scan_listeners ::
  "(groupAddress \<Rightarrow> error option) \<Rightarrow> priority \<Rightarrow> groupAddress \<Rightarrow> listener list
     \<Rightarrow> error option \<times> stack_event list" where
  "scan_listeners rd p g [] = (None, [])"
| "scan_listeners rd p g (NotGroupObject # ls) =
     (case scan_listeners rd p g ls of (r, es) \<Rightarrow> (r, Log_exception # es))"
| "scan_listeners rd p g (GroupObject f # ls) =
     (if init f then
        (case rd g of
           None \<Rightarrow> (None, [Group_read g p, Sleep 100])
         | Some e \<Rightarrow>
             if e = AttributeError then
               (case scan_listeners rd p g ls of
                  (r, es) \<Rightarrow> (r, Group_read g p # Log_exception # es))
             else (Some e, [Group_read g p]))
      else scan_listeners rd p g ls)"

fun scan_groups ::
  "(groupAddress \<Rightarrow> error option) \<Rightarrow> priority \<Rightarrow> (groupAddress \<times> Group) list
     \<Rightarrow> error option \<times> stack_event list" where
  "scan_groups rd p [] = (None, [])"
| "scan_groups rd p ((g, grp) # gs) =
     (case scan_listeners rd p g (listeners grp) of
        (Some e, es) \<Rightarrow> (Some e, es)
      | (None, es) \<Rightarrow> (case scan_groups rd p gs of (r, es') \<Rightarrow> (r, es @ es')))"

text \<open>
  \<open>Stack.start\<close>. The module's logger is \<open>logging.getLogger(__name__)\<close>, with
  \<open>logging\<close> as \<open>pknyx.services.logger\<close> exports it. \<open>start\<close> calls its methods
  \<open>trace\<close>, \<open>debug\<close> and \<open>exception\<close>. The last two are methods of every logger of
  the standard library and return; \<open>trace\<close> is not one, so what \<open>logger.trace\<close>
  raises, if anything, is the parameter \<open>lt\<close>. The call is the first statement of
  \<open>start\<close>, outside the \<open>try\<close>: an exception from it leaves \<open>start\<close> before layer 2
  is started. The closing \<open>logger.debug\<close> is reached when the loops end normally.
\<close>

definition Stack_start ::
  "error option \<Rightarrow> (groupAddress \<Rightarrow> error option) \<Rightarrow> priority \<Rightarrow> Stack
     \<Rightarrow> error option \<times> stack_event list" where
  "Stack_start lt rd p self =
     (case lt of
        Some e \<Rightarrow> (Some e, [Log_trace])
      | None \<Rightarrow>
          (case scan_groups rd p (agds_groups self) of
             (Some e, es) \<Rightarrow>
               (Some e, [Log_trace, Lds_start, Tc_start, Sleep 250, Log_debug] @ es)
           | (None, es) \<Rightarrow>
               (None, [Log_trace, Lds_start, Tc_start, Sleep 250, Log_debug] @ es @ [Log_debug])))"

text \<open>
  The module \<open>pknyx/services/logger.py\<close> imports the standard library's \<open>logging\<close> and
  leaves its \<open>Logger\<close> class as it is; it gives the method \<open>trace\<close> to its own
  class \<open>Logger\<close> only. With that module \<open>logging.getLogger\<close> yields a logger
  without \<open>trace\<close>, and \<open>logger.trace\<close> raises AttributeError.
\<close>

definition stdlib_logger_trace :: "error option" where
  "stdlib_logger_trace = Some AttributeError"



section \<open>\<open>Datapoint\<close>\<close>

text \<open>
  Modelled from the spec: the translator contract (package \<open>dptXlator\<close> is not part of
  the sources). A translator offers \<open>checkValue\<close>, \<open>valueToData\<close>, \<open>dataToValue\<close>,
  \<open>checkData\<close>, \<open>frameToData\<close> and \<open>dataToFrame\<close>; each may raise. A Datapoint
  holds its translator, so the translator is a record of functions over the types of
  values \<open>'v\<close>, encoded data \<open>'d\<close> and frames \<open>'f\<close>.
\<close>

record ('v, 'd, 'f) DPTXlator =
  checkValue :: "'v \<Rightarrow> error option"
  valueToData :: "'v \<Rightarrow> error + 'd"
  dataToValue :: "'d \<Rightarrow> error + 'v"
  checkData :: "'d \<Rightarrow> error option"
  frameToData :: "'f \<Rightarrow> error + 'd"
  dataToFrame :: "'d \<Rightarrow> error + 'f"
  typeSize :: nat

text \<open>
  The fields of a Datapoint. \<open>data\<close> is \<open>None\<close> until something is cached;
  \<open>default\<close>, \<open>flags\<close> and \<open>priority\<close> are \<open>None\<close> when not given.
\<close>

record ('v, 'd, 'f) Datapoint =
  owner :: obj
  name :: string
  dptId :: DPTID
  access :: string
  default_value :: "'v option"
  data :: "'d option"
  flags :: "Flags option"
  dp_priority :: "priority option"
  dptXlator :: "('v, 'd, 'f) DPTXlator"
  dptXlatorGeneric :: "('v, 'd, 'f) DPTXlator"

text \<open>
  What a Datapoint method does besides changing \<open>data\<close>: it calls translator methods,
  emits the change signal and notifies the owner. Each of these is recorded, in order.
\<close>

datatype ('v, 'd, 'f) dp_event =
    Call_checkValue 'v
  | Call_valueToData 'v
  | Call_dataToValue 'd
  | Call_checkData 'd
  | Call_frameToData 'f
  | Call_dataToFrame 'd
  | SignalChanged_emit "'v option" "'v option"
  | Owner_notify obj string "'v option" "'v option"

type_synonym ('v, 'd, 'f) dp_state = "('v, 'd, 'f) Datapoint \<times> ('v, 'd, 'f) dp_event list"

text \<open>
  A method is a function from the state (the Datapoint and the events so far) to its
  outcome and the state it leaves; an exception keeps the state reached when it was
  raised. \<open>seq\<close> runs one step after another and stops at the first exception.
\<close>

definition seq ::
  "('s \<Rightarrow> (error + 'a) \<times> 's) \<Rightarrow> ('a \<Rightarrow> 's \<Rightarrow> (error + 'b) \<times> 's) \<Rightarrow> 's \<Rightarrow> (error + 'b) \<times> 's" where
  "seq m f s = (case m s of (Inl e, s') \<Rightarrow> (Inl e, s') | (Inr x, s') \<Rightarrow> f x s')"

definition xl_checkValue :: "'v \<Rightarrow> ('v, 'd, 'f) dp_state \<Rightarrow> (error + unit) \<times> ('v, 'd, 'f) dp_state" where
  "xl_checkValue v s =
     (case s of (dp, tr) \<Rightarrow>
        ((case checkValue (dptXlator dp) v of Some e \<Rightarrow> Inl e | None \<Rightarrow> Inr ()),
         (dp, tr @ [Call_checkValue v])))"

definition xl_valueToData :: "'v \<Rightarrow> ('v, 'd, 'f) dp_state \<Rightarrow> (error + 'd) \<times> ('v, 'd, 'f) dp_state" where
  "xl_valueToData v s =
     (case s of (dp, tr) \<Rightarrow> (valueToData (dptXlator dp) v, (dp, tr @ [Call_valueToData v])))"

definition xl_dataToValue :: "'d \<Rightarrow> ('v, 'd, 'f) dp_state \<Rightarrow> (error + 'v) \<times> ('v, 'd, 'f) dp_state" where
  "xl_dataToValue d s =
     (case s of (dp, tr) \<Rightarrow> (dataToValue (dptXlator dp) d, (dp, tr @ [Call_dataToValue d])))"

definition xl_checkData :: "'d \<Rightarrow> ('v, 'd, 'f) dp_state \<Rightarrow> (error + unit) \<times> ('v, 'd, 'f) dp_state" where
  "xl_checkData d s =
     (case s of (dp, tr) \<Rightarrow>
        ((case checkData (dptXlator dp) d of Some e \<Rightarrow> Inl e | None \<Rightarrow> Inr ()),
         (dp, tr @ [Call_checkData d])))"

definition xl_frameToData :: "'f \<Rightarrow> ('v, 'd, 'f) dp_state \<Rightarrow> (error + 'd) \<times> ('v, 'd, 'f) dp_state" where
  "xl_frameToData fr s =
     (case s of (dp, tr) \<Rightarrow> (frameToData (dptXlator dp) fr, (dp, tr @ [Call_frameToData fr])))"

definition signalChanged_emit ::
  "'v option \<Rightarrow> 'v option \<Rightarrow> ('v, 'd, 'f) dp_state \<Rightarrow> (error + unit) \<times> ('v, 'd, 'f) dp_state" where
  "signalChanged_emit oldValue newValue s =
     (case s of (dp, tr) \<Rightarrow> (Inr (), (dp, tr @ [SignalChanged_emit oldValue newValue])))"

definition owner_notify ::
  "'v option \<Rightarrow> 'v option \<Rightarrow> ('v, 'd, 'f) dp_state \<Rightarrow> (error + unit) \<times> ('v, 'd, 'f) dp_state" where
  "owner_notify oldValue newValue s =
     (case s of (dp, tr) \<Rightarrow>
        (Inr (), (dp, tr @ [Owner_notify (owner dp) (name dp) oldValue newValue])))"

text \<open>\<open>Datapoint._setData\<close>: \<open>checkData\<close>, then the store into \<open>_data\<close>.\<close>

definition setData :: "'d \<Rightarrow> ('v, 'd, 'f) dp_state \<Rightarrow> (error + unit) \<times> ('v, 'd, 'f) dp_state" where
  "setData d =
     seq (xl_checkData d) (\<lambda>_ s. case s of (dp, tr) \<Rightarrow> (Inr (), (dp\<lparr>data := Some d\<rparr>, tr)))"

text \<open>The getter of \<open>Datapoint.value\<close>.\<close>

definition value_get :: "('v, 'd, 'f) dp_state \<Rightarrow> (error + 'v option) \<times> ('v, 'd, 'f) dp_state" where
  "value_get s =
     (case s of (dp, tr) \<Rightarrow>
        (case data dp of
           None \<Rightarrow> (Inr None, (dp, tr))
         | Some d \<Rightarrow> seq (xl_dataToValue d) (\<lambda>v s'. (Inr (Some v), s')) (dp, tr)))"

text \<open>\<open>Datapoint._setValue\<close>, which the constructor uses for the default.\<close>

definition setValue :: "'v \<Rightarrow> ('v, 'd, 'f) dp_state \<Rightarrow> (error + unit) \<times> ('v, 'd, 'f) dp_state" where
  "setValue v =
     seq (xl_checkValue v) (\<lambda>_.
     seq (xl_valueToData v) (\<lambda>d.
     setData d))"

text \<open>The setter of \<open>Datapoint.value\<close>.\<close>

definition value_set :: "'v \<Rightarrow> ('v, 'd, 'f) dp_state \<Rightarrow> (error + unit) \<times> ('v, 'd, 'f) dp_state" where
  "value_set v =
     seq value_get (\<lambda>oldValue.
     seq (xl_checkValue v) (\<lambda>_.
     seq (xl_valueToData v) (\<lambda>d.
     seq (setData d) (\<lambda>_.
     seq value_get (\<lambda>newValue.
     seq (signalChanged_emit oldValue newValue) (\<lambda>_.
     seq value_get (\<lambda>newValue'.
     owner_notify oldValue newValue')))))))"

text \<open>The setter of \<open>Datapoint.frame\<close>.\<close>

definition frame_set :: "'f \<Rightarrow> ('v, 'd, 'f) dp_state \<Rightarrow> (error + unit) \<times> ('v, 'd, 'f) dp_state" where
  "frame_set fr =
     seq value_get (\<lambda>oldValue.
     seq (xl_frameToData fr) (\<lambda>d.
     seq (setData d) (\<lambda>_.
     seq value_get (\<lambda>newValue.
     owner_notify oldValue newValue))))"

text \<open>
  \<open>Datapoint.__init__\<close>. The constructors of DPTID, Flags and Priority and the
  translator factory are not part of the sources: \<open>mkDPTID\<close>, \<open>mkFlags\<close>,
  \<open>mkPriority\<close> and \<open>create\<close> stand for them. The Datapoint starts with no data and
  no events; a default, when given, is stored with \<open>_setValue\<close>.
\<close>

definition Datapoint_init ::
  "(string \<Rightarrow> error + DPTID) \<Rightarrow> ('fl \<Rightarrow> error + Flags) \<Rightarrow> ('pr \<Rightarrow> error + priority)
     \<Rightarrow> (DPTID \<Rightarrow> error + ('v, 'd, 'f) DPTXlator)
     \<Rightarrow> obj \<Rightarrow> string \<Rightarrow> string \<Rightarrow> dptIdArg \<Rightarrow> 'v option \<Rightarrow> 'fl option \<Rightarrow> 'pr option
     \<Rightarrow> (error + unit) \<times> ('v, 'd, 'f) dp_state option" where
  "Datapoint_init mkDPTID mkFlags mkPriority create own nm acc dptIdA dflt fl pr =
     (if acc \<notin> {''input'', ''output'', ''param''} then (Inl DatapointValueError, None)
      else case as_DPTID mkDPTID dptIdA of
        Inl e \<Rightarrow> (Inl e, None)
      | Inr i \<Rightarrow>
      (case (case fl of None \<Rightarrow> Inr None | Some x \<Rightarrow> map_sum id Some (mkFlags x)) of
        Inl e \<Rightarrow> (Inl e, None)
      | Inr fl' \<Rightarrow>
      (case (case pr of None \<Rightarrow> Inr None | Some x \<Rightarrow> map_sum id Some (mkPriority x)) of
        Inl e \<Rightarrow> (Inl e, None)
      | Inr pr' \<Rightarrow>
      (case create i of
        Inl e \<Rightarrow> (Inl e, None)
      | Inr xl \<Rightarrow>
      (case (if i \<noteq> generic i then create (generic i) else Inr xl) of
        Inl e \<Rightarrow> (Inl e, None)
      | Inr xlg \<Rightarrow>
          (let dp = \<lparr>owner = own, name = nm, dptId = i, access = acc, default_value = dflt,
                     data = None, flags = fl', dp_priority = pr',
                     dptXlator = xl, dptXlatorGeneric = xlg\<rparr>
           in case dflt of
                None \<Rightarrow> (Inr (), Some (dp, []))
              | Some v \<Rightarrow>
                  (case setValue v (dp, []) of
                     (Inl e, _) \<Rightarrow> (Inl e, None)
                   | (Inr _, s) \<Rightarrow> (Inr (), Some s))))))))"

text \<open>The events other objects see: the change signal and the owner's notification.\<close>

fun is_signal :: "('v, 'd, 'f) dp_event \<Rightarrow> bool" where
  "is_signal (SignalChanged_emit _ _) = True"
| "is_signal _ = False"

fun is_notify :: "('v, 'd, 'f) dp_event \<Rightarrow> bool" where
  "is_notify (Owner_notify _ _ _ _) = True"
| "is_notify _ = False"

fun is_dataToValue :: "('v, 'd, 'f) dp_event \<Rightarrow> bool" where
  "is_dataToValue (Call_dataToValue _) = True"
| "is_dataToValue _ = False"

section \<open>Layer 4: accepted and dropped indications\<close>

lemma top_bits_cleared: "((b :: byte) AND 0x3f) AND 0xc0 = 0"
proof -
  have "(b AND 0x3f) AND 0xc0 = b AND (0x3f AND 0xc0)"
    by (simp add: and.assoc)
  also have "(0x3f :: byte) AND 0xc0 = 0"
    by simp
  finally show ?thesis by simp
qed

lemma unnumbered_keeps_byte:
  assumes "(b :: byte) AND 0xc0 = 0"
  shows "b AND 0x3f = b"
proof -
  have m: "(0xc0 :: byte) OR 0x3f = - 1"
    by simp
  have "b = b AND (0xc0 OR 0x3f)"
    by (simp only: m and.right_neutral)
  also have "\<dots> = (b AND 0xc0) OR (b AND 0x3f)"
    by (simp only: bit.conj_disj_distrib)
  finally show ?thesis using assms by simp
qed

lemma T_groupDataInd_no_listener:
  "tgdl self = None \<Longrightarrow> T_groupDataInd self src gad prio tPDU st = (None, [], st)"
  by (simp add: T_groupDataInd_def)

lemma T_groupDataInd_empty_buffer:
  "tgdl self = Some l \<Longrightarrow> st tPDU = [] \<Longrightarrow>
     T_groupDataInd self src gad prio tPDU st = (Some IndexError, [], st)"
  by (simp add: T_groupDataInd_def)

lemma T_groupDataInd_cases:
  assumes "tgdl self = Some l" and "st tPDU = b0 # rest"
  shows "T_groupDataInd self src gad prio tPDU st =
           (if b0 AND 0xc0 = UNNUMBERED_DATA
            then (None, [T_GroupDataInd l src gad prio tPDU], st(tPDU := (b0 AND 0x3f) # rest))
            else (None, [], st))"
  using assms by (simp add: T_groupDataInd_def)

text \<open>
  C2. With a listener set, \<open>groupDataInd\<close> forwards exactly when the top two bits of
  byte 0 equal the unnumbered-data code; the forwarded buffer then holds byte 0 with
  those two bits cleared and the other bytes as received. Every other packet-type
  code, the numbered-data code 0x40 included, forwards nothing and leaves the store as
  it was. (A buffer with no byte 0 raises IndexError and forwards nothing:
  \<open>T_groupDataInd_empty_buffer\<close>.)
\<close>

theorem T_groupDataInd_forwards_unnumbered_only:
  assumes "tgdl self = Some l" and "st tPDU = b0 # rest"
  shows "T_groupDataInd self src gad prio tPDU st =
           (if b0 AND 0xc0 = UNNUMBERED_DATA
            then (None, [T_GroupDataInd l src gad prio tPDU], st(tPDU := (b0 AND 0x3f) # rest))
            else (None, [], st))
         \<and> (b0 AND 0x3f) AND 0xc0 = 0
         \<and> (b0 AND 0xc0 = NUMBERED_DATA \<longrightarrow>
              T_groupDataInd self src gad prio tPDU st = (None, [], st))"
  using assms
  by (simp add: T_groupDataInd_cases top_bits_cleared UNNUMBERED_DATA_def NUMBERED_DATA_def)

theorem T_groupDataInd_forwards_unnumbered_only_witness:
  "T_groupDataInd \<lparr>tgdl = Some 7\<rparr> (IndividualAddress 0x1101) (GroupAddress 0x0901) Low 1
       (empty_store(1 := [0x01, 0x80]))
     = (None, [T_GroupDataInd 7 (IndividualAddress 0x1101) (GroupAddress 0x0901) Low 1],
        empty_store(1 := [0x01, 0x80]))
   \<and> T_groupDataInd \<lparr>tgdl = Some 7\<rparr> (IndividualAddress 0x1101) (GroupAddress 0x0901) Low 2
       (empty_store(2 := [0x41, 0x80]))
     = (None, [], empty_store(2 := [0x41, 0x80]))"
  using
    T_groupDataInd_forwards_unnumbered_only
      [of "\<lparr>tgdl = Some 7\<rparr>" 7 "empty_store(1 := [0x01, 0x80])" 1 "0x01" "[0x80]"
          "IndividualAddress 0x1101" "GroupAddress 0x0901" Low]
    T_groupDataInd_forwards_unnumbered_only
      [of "\<lparr>tgdl = Some 7\<rparr>" 7 "empty_store(2 := [0x41, 0x80])" 2 "0x41" "[0x80]"
          "IndividualAddress 0x1101" "GroupAddress 0x0901" Low]
  by (simp add: UNNUMBERED_DATA_def NUMBERED_DATA_def)

text \<open>
  C10 (as amended). For every accepted unnumbered indication the object delivered to
  the application listener is the caller's own bytearray (the call carries the same
  identity, no copy is made), byte 0 of that object is stored in place with its top two
  bits cleared and no other object is written. An indication is accepted only when
  those two bits are already zero, so the contents of the caller's buffer after the
  call equal the contents before it.
\<close>

theorem T_groupDataInd_same_buffer_in_place:
  assumes "tgdl self = Some l" and "st tPDU = b0 # rest"
    and "b0 AND 0xc0 = UNNUMBERED_DATA"
  shows "fst (snd (T_groupDataInd self src gad prio tPDU st))
           = [T_GroupDataInd l src gad prio tPDU]
         \<and> snd (snd (T_groupDataInd self src gad prio tPDU st))
           = st(tPDU := (b0 AND 0x3f) # rest)
         \<and> snd (snd (T_groupDataInd self src gad prio tPDU st)) tPDU = st tPDU"
proof -
  have keep: "b0 AND 0x3f = b0"
    using assms(3) by (simp add: unnumbered_keeps_byte UNNUMBERED_DATA_def)
  show ?thesis
    using assms keep by (simp add: T_groupDataInd_cases)
qed

theorem T_groupDataInd_same_buffer_in_place_witness:
  "fst (snd (T_groupDataInd \<lparr>tgdl = Some 7\<rparr> (IndividualAddress 0x1101) (GroupAddress 0x0901)
       Normal 3 (empty_store(3 := [0x00, 0x81]))))
     = [T_GroupDataInd 7 (IndividualAddress 0x1101) (GroupAddress 0x0901) Normal 3]
   \<and> snd (snd (T_groupDataInd \<lparr>tgdl = Some 7\<rparr> (IndividualAddress 0x1101)
       (GroupAddress 0x0901) Normal 3 (empty_store(3 := [0x00, 0x81])))) 3 = [0x00, 0x81]"
  using
    T_groupDataInd_same_buffer_in_place
      [of "\<lparr>tgdl = Some 7\<rparr>" 7 "empty_store(3 := [0x00, 0x81])" 3 "0x00" "[0x81]"
          "IndividualAddress 0x1101" "GroupAddress 0x0901" Normal]
  by (simp add: UNNUMBERED_DATA_def)

text \<open>
  C10 as stated says that after an accepted indication the caller's buffer has been
  modified. At the buffer \<open>[0x00, 0x81]\<close> the indication is accepted and forwarded,
  and the buffer holds the same bytes after the call as before it.
\<close>

theorem T_groupDataInd_buffer_modified_counterexample:
  "fst (snd (T_groupDataInd \<lparr>tgdl = Some 7\<rparr> (IndividualAddress 0x1101) (GroupAddress 0x0901)
       Low 0 (empty_store(0 := [0x00, 0x81]))))
     = [T_GroupDataInd 7 (IndividualAddress 0x1101) (GroupAddress 0x0901) Low 0]
   \<and> snd (snd (T_groupDataInd \<lparr>tgdl = Some 7\<rparr> (IndividualAddress 0x1101)
       (GroupAddress 0x0901) Low 0 (empty_store(0 := [0x00, 0x81]))))
     = empty_store(0 := [0x00, 0x81])"
  by (simp add: T_groupDataInd_def UNNUMBERED_DATA_def)

section \<open>Layer 3: outbound requests and inbound frames\<close>

lemma setitem_zeros_first:
  "setitem (bytearray_zeros (Suc n)) 0 v =
     (if v < 0 \<or> 255 < v then Inl ValueError else Inr (word_of_int v # replicate n 0))"
  by (simp add: setitem_def bytearray_zeros_def)

lemma N_groupDataReq_null:
  "isNull gad \<Longrightarrow> N_groupDataReq dataReq self blank gad prio nSDU = (Inl N_GDSValueError, [])"
  by (simp add: N_groupDataReq_def)

lemma N_groupDataReq_bad_length:
  assumes "\<not> isNull gad" and "nSDU = [] \<or> 256 < length nSDU"
  shows "N_groupDataReq dataReq self blank gad prio nSDU = (Inl ValueError, [])"
  using assms by (auto simp: N_groupDataReq_def setitem_zeros_first)

lemma N_groupDataReq_sent:
  assumes "\<not> isNull gad" and "nSDU \<noteq> []" and "length nSDU \<le> 256"
  shows "N_groupDataReq dataReq self blank gad prio nSDU =
           (let f = blank\<lparr>messageCode := MC_LDATA_IND,
                           destinationAddress := GroupAddr gad,
                           priority := prio,
                           hopCount := n_hopCount self,
                           npdu := word_of_int (int (length nSDU) - 1) # nSDU\<rparr>
            in (Inr (dataReq f), [L_DataReq (lds self) f]))"
proof -
  have "0 < length nSDU"
    using assms(2) by simp
  then have rng: "\<not> (int (length nSDU) - 1 < 0 \<or> 255 < int (length nSDU) - 1)"
    using assms(3) by linarith
  show ?thesis
    using assms(1) rng by (simp add: N_groupDataReq_def setitem_zeros_first setslice_from_def)
qed

lemma N_groupDataReq_calls:
  "snd (N_groupDataReq dataReq self blank gad prio nSDU) =
     (if \<not> isNull gad \<and> nSDU \<noteq> [] \<and> length nSDU \<le> 256
      then [L_DataReq (lds self)
              (blank\<lparr>messageCode := MC_LDATA_IND,
                     destinationAddress := GroupAddr gad,
                     priority := prio,
                     hopCount := n_hopCount self,
                     npdu := word_of_int (int (length nSDU) - 1) # nSDU\<rparr>)]
      else [])"
proof (cases "isNull gad")
  case True
  then show ?thesis by (simp add: N_groupDataReq_null)
next
  case False
  show ?thesis
  proof (cases "nSDU = [] \<or> 256 < length nSDU")
    case True
    with False show ?thesis
      by (auto simp: N_groupDataReq_bad_length)
  next
    case False
    with \<open>\<not> isNull gad\<close> show ?thesis
      by (simp add: N_groupDataReq_sent Let_def)
  qed
qed

text \<open>
  C3. A request to the null group address raises the address error
  \<open>N_GDSValueError\<close> and makes no call on layer 2; a request to a non-null group
  address never ends in that error.
\<close>

theorem N_groupDataReq_null_address_error:
  "(isNull gad \<longrightarrow>
      N_groupDataReq dataReq self blank gad prio nSDU = (Inl N_GDSValueError, []))
   \<and> (\<not> isNull gad \<longrightarrow>
      fst (N_groupDataReq dataReq self blank gad prio nSDU) \<noteq> Inl N_GDSValueError)"
proof (cases "isNull gad")
  case True
  then show ?thesis by (simp add: N_groupDataReq_null)
next
  case False
  show ?thesis
  proof (cases "nSDU = [] \<or> 256 < length nSDU")
    case True
    with False show ?thesis
      by (simp add: N_groupDataReq_bad_length)
  next
    case False
    with \<open>\<not> isNull gad\<close> show ?thesis
      by (simp add: N_groupDataReq_sent Let_def)
  qed
qed

theorem N_groupDataReq_null_address_error_witness:
  "isNull (GroupAddress 0)
   \<and> N_groupDataReq id \<lparr>lds = 5, ngdl = None, n_hopCount = 6\<rparr>
         \<lparr>messageCode = MC_LDATA_REQ, sourceAddress = IndividualAddress 0,
          destinationAddress = IndividualAddr (IndividualAddress 0), priority = Low,
          hopCount = 0, npdu = []\<rparr>
         (GroupAddress 0) Normal [0x00, 0x80]
       = (Inl N_GDSValueError, [])
   \<and> \<not> isNull (GroupAddress 0x0901)
   \<and> fst (N_groupDataReq id \<lparr>lds = 5, ngdl = None, n_hopCount = 6\<rparr>
         \<lparr>messageCode = MC_LDATA_REQ, sourceAddress = IndividualAddress 0,
          destinationAddress = IndividualAddr (IndividualAddress 0), priority = Low,
          hopCount = 0, npdu = []\<rparr>
         (GroupAddress 0x0901) Normal [0x00, 0x80])
       \<noteq> Inl N_GDSValueError"
  using
    N_groupDataReq_null_address_error
      [where gad = "GroupAddress 0" and dataReq = id
         and self = "\<lparr>lds = 5, ngdl = None, n_hopCount = 6\<rparr>"
         and blank = "\<lparr>messageCode = MC_LDATA_REQ, sourceAddress = IndividualAddress 0,
            destinationAddress = IndividualAddr (IndividualAddress 0), priority = Low,
            hopCount = 0, npdu = []\<rparr>"
         and prio = Normal and nSDU = "[0x00, 0x80]"]
    N_groupDataReq_null_address_error
      [where gad = "GroupAddress 0x0901" and dataReq = id
         and self = "\<lparr>lds = 5, ngdl = None, n_hopCount = 6\<rparr>"
         and blank = "\<lparr>messageCode = MC_LDATA_REQ, sourceAddress = IndividualAddress 0,
            destinationAddress = IndividualAddr (IndividualAddress 0), priority = Low,
            hopCount = 0, npdu = []\<rparr>"
         and prio = Normal and nSDU = "[0x00, 0x80]"]
  by (simp add: isNull_def)

text \<open>
  C4. Every frame \<open>groupDataReq\<close> hands to layer 2 carries the message code
  \<open>MC_LDATA_IND\<close>, never \<open>MC_LDATA_REQ\<close>, whatever the destination, the priority, the
  payload and the message code of the freshly built frame are.
\<close>

theorem N_groupDataReq_message_code:
  assumes "L_DataReq l f \<in> set (snd (N_groupDataReq dataReq self blank gad prio nSDU))"
  shows "messageCode f = MC_LDATA_IND \<and> messageCode f \<noteq> MC_LDATA_REQ"
  using assms by (auto simp: N_groupDataReq_calls split: if_splits)

theorem N_groupDataReq_message_code_witness:
  "snd (N_groupDataReq id \<lparr>lds = 5, ngdl = None, n_hopCount = 6\<rparr>
         \<lparr>messageCode = MC_LDATA_REQ, sourceAddress = IndividualAddress 0,
          destinationAddress = IndividualAddr (IndividualAddress 0), priority = Low,
          hopCount = 0, npdu = []\<rparr>
         (GroupAddress 0x0901) Urgent [0x00, 0x80])
     = [L_DataReq 5
          \<lparr>messageCode = MC_LDATA_IND, sourceAddress = IndividualAddress 0,
           destinationAddress = GroupAddr (GroupAddress 0x0901), priority = Urgent,
           hopCount = 6, npdu = [0x01, 0x00, 0x80]\<rparr>]
   \<and> messageCode
        \<lparr>messageCode = MC_LDATA_IND, sourceAddress = IndividualAddress 0,
         destinationAddress = GroupAddr (GroupAddress 0x0901), priority = Urgent,
         hopCount = 6, npdu = [0x01, 0x00, 0x80]\<rparr> = MC_LDATA_IND"
proof -
  have sent:
    "snd (N_groupDataReq id \<lparr>lds = 5, ngdl = None, n_hopCount = 6\<rparr>
         \<lparr>messageCode = MC_LDATA_REQ, sourceAddress = IndividualAddress 0,
          destinationAddress = IndividualAddr (IndividualAddress 0), priority = Low,
          hopCount = 0, npdu = []\<rparr>
         (GroupAddress 0x0901) Urgent [0x00, 0x80])
     = [L_DataReq 5
          \<lparr>messageCode = MC_LDATA_IND, sourceAddress = IndividualAddress 0,
           destinationAddress = GroupAddr (GroupAddress 0x0901), priority = Urgent,
           hopCount = 6, npdu = [0x01, 0x00, 0x80]\<rparr>]"
    by (simp add: N_groupDataReq_calls isNull_def)
  then have mem:
    "L_DataReq 5
          \<lparr>messageCode = MC_LDATA_IND, sourceAddress = IndividualAddress 0,
           destinationAddress = GroupAddr (GroupAddress 0x0901), priority = Urgent,
           hopCount = 6, npdu = [0x01, 0x00, 0x80]\<rparr>
      \<in> set (snd (N_groupDataReq id \<lparr>lds = 5, ngdl = None, n_hopCount = 6\<rparr>
         \<lparr>messageCode = MC_LDATA_REQ, sourceAddress = IndividualAddress 0,
          destinationAddress = IndividualAddr (IndividualAddress 0), priority = Low,
          hopCount = 0, npdu = []\<rparr>
         (GroupAddress 0x0901) Urgent [0x00, 0x80]))"
    by simp
  show ?thesis
    using sent N_groupDataReq_message_code [OF mem] by simp
qed

lemma uint_byte_of_int:
  assumes "0 \<le> k" and "k < 256"
  shows "uint (word_of_int k :: byte) = k"
proof -
  have "uint (word_of_int k :: byte) = take_bit 8 k"
    by (simp add: uint_word_of_int_eq)
  also have "\<dots> = k"
    using assms by (simp add: take_bit_int_eq_self)
  finally show ?thesis .
qed

lemma uint_len_byte:
  assumes "0 < n" and "n \<le> 256"
  shows "uint (word_of_int (int n - 1) :: byte) = int n - 1"
  using assms by (intro uint_byte_of_int) simp_all

lemma N_dataInd_calls:
  "N_dataInd self cEMI =
     (case ngdl self of
        None \<Rightarrow> []
      | Some l \<Rightarrow>
          (case destinationAddress cEMI of
             GroupAddr g \<Rightarrow>
               if isNull g then []
               else [N_GroupDataInd l (sourceAddress cEMI) g (priority cEMI) (drop 1 (npdu cEMI))]
           | IndividualAddr _ \<Rightarrow> []))"
  by (simp add: N_dataInd_def Let_def split: option.splits address.splits)

text \<open>
  C5. Whenever \<open>groupDataReq\<close> hands a frame to layer 2, its network payload is the
  single byte \<open>len(nSDU) - 1\<close> followed by \<open>nSDU\<close>: the length byte, read as an
  unsigned integer, is the payload length minus one. Whenever \<open>dataInd\<close> accepts an
  inbound frame (listener set, non-null group destination), the payload it forwards is
  the frame's \<open>npdu\<close> without its first byte.
\<close>

theorem N_length_prefix:
  "(L_DataReq l f \<in> set (snd (N_groupDataReq dataReq self blank gad prio nSDU)) \<longrightarrow>
      npdu f = word_of_int (int (length nSDU) - 1) # nSDU
      \<and> uint (hd (npdu f)) = int (length nSDU) - 1
      \<and> length (npdu f) = length nSDU + 1)
   \<and> (ngdl self' = Some l' \<and> destinationAddress cEMI = GroupAddr dest \<and> \<not> isNull dest \<longrightarrow>
      N_dataInd self' cEMI
        = [N_GroupDataInd l' (sourceAddress cEMI) dest (priority cEMI) (drop 1 (npdu cEMI))]
      \<and> drop 1 (npdu cEMI) = tl (npdu cEMI))"
proof (intro conjI impI)
  assume sent: "L_DataReq l f \<in> set (snd (N_groupDataReq dataReq self blank gad prio nSDU))"
  then have ok: "nSDU \<noteq> []" "length nSDU \<le> 256"
    and f: "npdu f = word_of_int (int (length nSDU) - 1) # nSDU"
    by (auto simp: N_groupDataReq_calls split: if_splits)
  show "npdu f = word_of_int (int (length nSDU) - 1) # nSDU"
    by (rule f)
  show "uint (hd (npdu f)) = int (length nSDU) - 1"
  proof -
    have "0 < length nSDU"
      using ok(1) by simp
    then show ?thesis
      using ok(2) by (simp only: f list.sel uint_len_byte)
  qed
  show "length (npdu f) = length nSDU + 1"
    by (simp add: f)
next
  assume "ngdl self' = Some l' \<and> destinationAddress cEMI = GroupAddr dest \<and> \<not> isNull dest"
  then show "N_dataInd self' cEMI
        = [N_GroupDataInd l' (sourceAddress cEMI) dest (priority cEMI) (drop 1 (npdu cEMI))]"
    by (simp add: N_dataInd_calls)
next
  show "drop 1 (npdu cEMI) = tl (npdu cEMI)"
    by (simp add: drop_Suc)
qed


theorem N_length_prefix_witness:
  "L_DataReq 5
       \<lparr>messageCode = MC_LDATA_IND, sourceAddress = IndividualAddress 0x1101,
        destinationAddress = GroupAddr (GroupAddress 0x0901), priority = Low,
        hopCount = 6, npdu = [0x01, 0x00, 0x80]\<rparr>
     \<in> set (snd (N_groupDataReq id \<lparr>lds = 5, ngdl = Some 9, n_hopCount = 6\<rparr>
         \<lparr>messageCode = MC_LDATA_REQ, sourceAddress = IndividualAddress 0x1101,
          destinationAddress = IndividualAddr (IndividualAddress 0), priority = System,
          hopCount = 0, npdu = []\<rparr>
         (GroupAddress 0x0901) Low [0x00, 0x80]))
   \<and> uint (hd [0x01, 0x00, 0x80 :: byte]) = int (length [0x00, 0x80 :: byte]) - 1
   \<and> N_dataInd \<lparr>lds = 5, ngdl = Some 9, n_hopCount = 6\<rparr>
       \<lparr>messageCode = MC_LDATA_IND, sourceAddress = IndividualAddress 0x1101,
        destinationAddress = GroupAddr (GroupAddress 0x0901), priority = Low,
        hopCount = 6, npdu = [0x01, 0x00, 0x80]\<rparr>
     = [N_GroupDataInd 9 (IndividualAddress 0x1101) (GroupAddress 0x0901) Low [0x00, 0x80]]"
proof -
  have sent:
    "L_DataReq 5
       \<lparr>messageCode = MC_LDATA_IND, sourceAddress = IndividualAddress 0x1101,
        destinationAddress = GroupAddr (GroupAddress 0x0901), priority = Low,
        hopCount = 6, npdu = [0x01, 0x00, 0x80]\<rparr>
     \<in> set (snd (N_groupDataReq id \<lparr>lds = 5, ngdl = Some 9, n_hopCount = 6\<rparr>
         \<lparr>messageCode = MC_LDATA_REQ, sourceAddress = IndividualAddress 0x1101,
          destinationAddress = IndividualAddr (IndividualAddress 0), priority = System,
          hopCount = 0, npdu = []\<rparr>
         (GroupAddress 0x0901) Low [0x00, 0x80]))"
    by (simp add: N_groupDataReq_calls isNull_def)
  have accepted:
    "ngdl \<lparr>lds = 5, ngdl = Some 9, n_hopCount = 6\<rparr> = Some 9
     \<and> destinationAddress
         \<lparr>messageCode = MC_LDATA_IND, sourceAddress = IndividualAddress 0x1101,
          destinationAddress = GroupAddr (GroupAddress 0x0901), priority = Low,
          hopCount = 6, npdu = [0x01, 0x00, 0x80]\<rparr> = GroupAddr (GroupAddress 0x0901)
     \<and> \<not> isNull (GroupAddress 0x0901)"
    by (simp add: isNull_def)
  show ?thesis
    using sent accepted
      N_length_prefix
        [where l = 5 and dataReq = id
           and self = "\<lparr>lds = 5, ngdl = Some 9, n_hopCount = 6\<rparr>"
           and blank = "\<lparr>messageCode = MC_LDATA_REQ, sourceAddress = IndividualAddress 0x1101,
              destinationAddress = IndividualAddr (IndividualAddress 0), priority = System,
              hopCount = 0, npdu = []\<rparr>"
           and gad = "GroupAddress 0x0901" and prio = Low and nSDU = "[0x00, 0x80]"
           and f = "\<lparr>messageCode = MC_LDATA_IND, sourceAddress = IndividualAddress 0x1101,
              destinationAddress = GroupAddr (GroupAddress 0x0901), priority = Low,
              hopCount = 6, npdu = [0x01, 0x00, 0x80]\<rparr>"
           and self' = "\<lparr>lds = 5, ngdl = Some 9, n_hopCount = 6\<rparr>" and l' = 9
           and cEMI = "\<lparr>messageCode = MC_LDATA_IND, sourceAddress = IndividualAddress 0x1101,
              destinationAddress = GroupAddr (GroupAddress 0x0901), priority = Low,
              hopCount = 6, npdu = [0x01, 0x00, 0x80]\<rparr>"
           and dest = "GroupAddress 0x0901"]
    by simp
qed

section \<open>Constructing a DPT\<close>

lemma py_tuple_Tuple: "py_iter limits = Some xs \<Longrightarrow> py_tuple limits = Inr xs"
  by (simp add: py_tuple_def)

lemma py_tuple_None: "py_iter limits = None \<Longrightarrow> py_tuple limits = Inl TypeError"
  by (simp add: py_tuple_def)

text \<open>
  C6. Once the id is accepted, construction fails with \<open>DPTValueError\<close> for every
  \<open>limits\<close> that cannot be iterated into a tuple (the bare integer -273 of the test is
  one), and for every \<open>limits\<close> that can be, construction succeeds and the DPT's limits
  are the items of \<open>limits\<close>, in order, as a tuple.
\<close>

theorem DPT_init_limits:
  assumes "as_DPTID mkDPTID dptIdA = Inr i"
  shows "(py_iter (limits :: 'f pyobj) = None \<longrightarrow>
            DPT_init mkDPTID dptIdA desc limits unit = Inl DPTValueError)
         \<and> (py_iter limits = Some xs \<longrightarrow>
            DPT_init mkDPTID dptIdA desc limits unit
              = Inr \<lparr>dpt_id = i, dpt_desc = desc, dpt_limits = xs, dpt_unit = unit\<rparr>)
         \<and> DPT_init mkDPTID dptIdA desc (PyInt (- 273) :: 'f pyobj) unit = Inl DPTValueError"
  using assms by (simp add: DPT_init_def py_tuple_def)

theorem DPT_init_limits_witness:
  "as_DPTID (\<lambda>s. Inl ValueError) (OfDPTID (DPTID ''9'' ''001'')) = Inr (DPTID ''9'' ''001'') \<and>
   py_iter (PyInt (- 273) :: unit pyobj) = None \<and>
   DPT_init (\<lambda>s. Inl ValueError) (OfDPTID (DPTID ''9'' ''001'')) ''Temperature''
       (PyInt (- 273) :: unit pyobj) None
     = Inl DPTValueError \<and>
   py_iter (PyList [PyInt (- 273), PyInt 670760] :: unit pyobj)
     = Some [PyInt (- 273), PyInt 670760] \<and>
   DPT_init (\<lambda>s. Inl ValueError) (OfDPTID (DPTID ''9'' ''001'')) ''Temperature''
       (PyList [PyInt (- 273), PyInt 670760] :: unit pyobj) None
     = Inr \<lparr>dpt_id = DPTID ''9'' ''001'', dpt_desc = ''Temperature'',
            dpt_limits = [PyInt (- 273), PyInt 670760], dpt_unit = None\<rparr>"
proof -
  have acc: "as_DPTID (\<lambda>s. Inl ValueError) (OfDPTID (DPTID ''9'' ''001''))
               = Inr (DPTID ''9'' ''001'')"
    by (simp add: as_DPTID_def)
  show ?thesis
    using acc
      DPT_init_limits [OF acc, where limits = "PyInt (- 273) :: unit pyobj"
        and desc = "''Temperature''" and unit = None]
      DPT_init_limits [OF acc, where limits = "PyList [PyInt (- 273), PyInt 670760] :: unit pyobj"
        and xs = "[PyInt (- 273), PyInt 670760]" and desc = "''Temperature''" and unit = None]
    by simp
qed

section \<open>Initial read requests of \<open>Stack.start\<close>\<close>











lemma Stack_start_trace_raises:
  "Stack_start (Some e) rd p self = (Some e, [Log_trace])"
  by (simp add: Stack_start_def)

lemma Stack_start_stdlib_logger:
  "Stack_start stdlib_logger_trace rd p self = (Some AttributeError, [Log_trace])"
  by (simp add: stdlib_logger_trace_def Stack_start_trace_raises)




section \<open>Reading and setting a Datapoint\<close>

lemma value_get_no_data:
  "data dp = None \<Longrightarrow> value_get (dp, tr) = (Inr None, (dp, tr))"
  by (simp add: value_get_def)

lemma value_get_cached:
  "data dp = Some d \<Longrightarrow>
     value_get (dp, tr)
       = (map_sum id Some (dataToValue (dptXlator dp) d), (dp, tr @ [Call_dataToValue d]))"
  by (simp add: value_get_def seq_def xl_dataToValue_def split: sum.splits)

lemma value_get_state:
  "snd (value_get (dp, tr))
     = (dp, tr @ (case data dp of None \<Rightarrow> [] | Some d \<Rightarrow> [Call_dataToValue d]))"
  by (cases "data dp") (simp_all add: value_get_no_data value_get_cached)

lemma setData_ok:
  "checkData (dptXlator dp) d = None \<Longrightarrow>
     setData d (dp, tr) = (Inr (), (dp\<lparr>data := Some d\<rparr>, tr @ [Call_checkData d]))"
  by (simp add: setData_def seq_def xl_checkData_def)

lemma setData_raises:
  "checkData (dptXlator dp) d = Some e \<Longrightarrow>
     setData d (dp, tr) = (Inl e, (dp, tr @ [Call_checkData d]))"
  by (simp add: setData_def seq_def xl_checkData_def)

lemma frame_set_ok:
  assumes "value_get (dp, tr) = (Inr oldValue, (dp, tr0))"
    and "frameToData (dptXlator dp) fr = Inr d"
    and "checkData (dptXlator dp) d = None"
    and "dataToValue (dptXlator dp) d = Inr newValue"
  shows "frame_set fr (dp, tr)
           = (Inr (), (dp\<lparr>data := Some d\<rparr>,
                tr0 @ [Call_frameToData fr, Call_checkData d, Call_dataToValue d,
                       Owner_notify (owner dp) (name dp) oldValue (Some newValue)]))"
  using assms
  by (simp add: frame_set_def seq_def xl_frameToData_def setData_ok value_get_cached
      owner_notify_def)

lemma value_set_ok:
  assumes "value_get (dp, tr) = (Inr oldValue, (dp, tr0))"
    and "checkValue (dptXlator dp) v = None"
    and "valueToData (dptXlator dp) v = Inr d"
    and "checkData (dptXlator dp) d = None"
    and "dataToValue (dptXlator dp) d = Inr newValue"
  shows "value_set v (dp, tr)
           = (Inr (), (dp\<lparr>data := Some d\<rparr>,
                tr0 @ [Call_checkValue v, Call_valueToData v, Call_checkData d,
                       Call_dataToValue d, SignalChanged_emit oldValue (Some newValue),
                       Call_dataToValue d,
                       Owner_notify (owner dp) (name dp) oldValue (Some newValue)]))"
  using assms
  by (simp add: value_set_def seq_def xl_checkValue_def xl_valueToData_def setData_ok
      value_get_cached signalChanged_emit_def owner_notify_def)

lemma frame_set_no_signal:
  "filter is_signal (snd (snd (frame_set fr (dp, tr)))) = filter is_signal tr"
  by (cases "data dp"; cases "checkData (dptXlator dp) (projr (frameToData (dptXlator dp) fr))")
     (auto simp: frame_set_def seq_def xl_frameToData_def setData_def xl_checkData_def
        value_get_def xl_dataToValue_def owner_notify_def
      split: sum.splits prod.splits option.splits)

lemma Datapoint_init_no_default:
  assumes "Datapoint_init mkDPTID mkFlags mkPriority create own nm acc dptIdA None fl pr
             = (Inr (), Some s)"
  shows "data (fst s) = None \<and> snd s = []"
  using assms
  by (auto simp: Datapoint_init_def Let_def split: if_splits sum.splits)

text \<open>
  C9. Reading \<open>value\<close> while no data is cached yields \<open>None\<close> and calls nothing (the
  state, events included, is unchanged, so \<open>dataToValue\<close> is not invoked); this is the
  state a Datapoint constructed without a default is in. Once data \<open>d\<close> is cached,
  reading \<open>value\<close> calls \<open>dataToValue d\<close> and returns what it returns.
\<close>

theorem Datapoint_value_get:
  "(data dp = None \<longrightarrow>
      value_get (dp, tr) = (Inr None, (dp, tr))
      \<and> filter is_dataToValue (snd (snd (value_get (dp, tr)))) = filter is_dataToValue tr)
   \<and> (data dp = Some d \<longrightarrow>
      value_get (dp, tr)
        = (map_sum id Some (dataToValue (dptXlator dp) d), (dp, tr @ [Call_dataToValue d])))
   \<and> (Datapoint_init mkDPTID mkFlags mkPriority create own nm acc dptIdA None fl pr
        = (Inr (), Some s) \<longrightarrow>
      data (fst s) = None \<and> snd s = [] \<and> value_get s = (Inr None, s))"
proof (intro conjI impI)
  assume "data dp = None"
  then show "value_get (dp, tr) = (Inr None, (dp, tr))"
    and "filter is_dataToValue (snd (snd (value_get (dp, tr)))) = filter is_dataToValue tr"
    by (simp_all add: value_get_no_data)
next
  assume "data dp = Some d"
  then show "value_get (dp, tr)
        = (map_sum id Some (dataToValue (dptXlator dp) d), (dp, tr @ [Call_dataToValue d]))"
    by (rule value_get_cached)
next
  assume i: "Datapoint_init mkDPTID mkFlags mkPriority create own nm acc dptIdA None fl pr
        = (Inr (), Some s)"
  from Datapoint_init_no_default [OF i]
  show "data (fst s) = None" and "snd s = []"
    by simp_all
  obtain dp0 tr0 where s: "s = (dp0, tr0)"
    by (cases s)
  from Datapoint_init_no_default [OF i] have "data dp0 = None"
    by (simp add: s)
  then show "value_get s = (Inr None, s)"
    by (simp only: s value_get_no_data)
qed

theorem Datapoint_value_get_witness:
  "Datapoint_init (\<lambda>s. Inr (DPTID ''1'' ''xxx'')) (\<lambda>s. Inr (Flags s)) Inr
       (\<lambda>i. Inr \<lparr>checkValue = (\<lambda>v :: nat. None), valueToData = Inr, dataToValue = Inr,
                  checkData = (\<lambda>d :: nat. None), frameToData = Inr, dataToFrame = Inr,
                  typeSize = 0\<rparr>)
       0 ''PID_TEST'' ''output'' (OfStr ''1.xxx'') None (None :: string option)
       (None :: priority option)
     = (Inr (),
        Some (\<lparr>owner = 0, name = ''PID_TEST'', dptId = DPTID ''1'' ''xxx'', access = ''output'',
               default_value = None, data = None, flags = None, dp_priority = None,
               dptXlator =
                 \<lparr>checkValue = (\<lambda>v :: nat. None), valueToData = Inr, dataToValue = Inr,
                  checkData = (\<lambda>d :: nat. None), frameToData = (Inr :: nat \<Rightarrow> error + nat),
                  dataToFrame = Inr, typeSize = 0\<rparr>,
               dptXlatorGeneric =
                 \<lparr>checkValue = (\<lambda>v :: nat. None), valueToData = Inr, dataToValue = Inr,
                  checkData = (\<lambda>d :: nat. None), frameToData = Inr,
                  dataToFrame = Inr, typeSize = 0\<rparr>\<rparr>, []))
   \<and> value_get
       (\<lparr>owner = 0, name = ''PID_TEST'', dptId = DPTID ''1'' ''xxx'', access = ''output'',
               default_value = None, data = None, flags = None, dp_priority = None,
               dptXlator =
                 \<lparr>checkValue = (\<lambda>v :: nat. None), valueToData = Inr, dataToValue = Inr,
                  checkData = (\<lambda>d :: nat. None), frameToData = (Inr :: nat \<Rightarrow> error + nat),
                  dataToFrame = Inr, typeSize = 0\<rparr>,
               dptXlatorGeneric =
                 \<lparr>checkValue = (\<lambda>v :: nat. None), valueToData = Inr, dataToValue = Inr,
                  checkData = (\<lambda>d :: nat. None), frameToData = Inr,
                  dataToFrame = Inr, typeSize = 0\<rparr>\<rparr>, [])
     = (Inr None,
        (\<lparr>owner = 0, name = ''PID_TEST'', dptId = DPTID ''1'' ''xxx'', access = ''output'',
               default_value = None, data = None, flags = None, dp_priority = None,
               dptXlator =
                 \<lparr>checkValue = (\<lambda>v :: nat. None), valueToData = Inr, dataToValue = Inr,
                  checkData = (\<lambda>d :: nat. None), frameToData = (Inr :: nat \<Rightarrow> error + nat),
                  dataToFrame = Inr, typeSize = 0\<rparr>,
               dptXlatorGeneric =
                 \<lparr>checkValue = (\<lambda>v :: nat. None), valueToData = Inr, dataToValue = Inr,
                  checkData = (\<lambda>d :: nat. None), frameToData = Inr,
                  dataToFrame = Inr, typeSize = 0\<rparr>\<rparr>, []))
   \<and> fst (value_get
       (\<lparr>owner = 0, name = ''PID_TEST'', dptId = DPTID ''1'' ''xxx'', access = ''output'',
               default_value = None, data = Some 1, flags = None, dp_priority = None,
               dptXlator =
                 \<lparr>checkValue = (\<lambda>v :: nat. None), valueToData = Inr, dataToValue = Inr,
                  checkData = (\<lambda>d :: nat. None), frameToData = (Inr :: nat \<Rightarrow> error + nat),
                  dataToFrame = Inr, typeSize = 0\<rparr>,
               dptXlatorGeneric =
                 \<lparr>checkValue = (\<lambda>v :: nat. None), valueToData = Inr, dataToValue = Inr,
                  checkData = (\<lambda>d :: nat. None), frameToData = Inr,
                  dataToFrame = Inr, typeSize = 0\<rparr>\<rparr>, []))
     = Inr (Some 1)"
proof -
  let ?xl = "\<lparr>checkValue = (\<lambda>v :: nat. None), valueToData = Inr, dataToValue = Inr,
              checkData = (\<lambda>d :: nat. None), frameToData = (Inr :: nat \<Rightarrow> error + nat),
              dataToFrame = Inr, typeSize = 0\<rparr>"
  let ?dp = "\<lparr>owner = 0, name = ''PID_TEST'', dptId = DPTID ''1'' ''xxx'', access = ''output'',
              default_value = None, data = None, flags = None, dp_priority = None,
              dptXlator = ?xl, dptXlatorGeneric = ?xl\<rparr>"
  have i: "Datapoint_init (\<lambda>s. Inr (DPTID ''1'' ''xxx'')) (\<lambda>s. Inr (Flags s)) Inr
       (\<lambda>i. Inr ?xl) 0 ''PID_TEST'' ''output'' (OfStr ''1.xxx'') None (None :: string option)
       (None :: priority option) = (Inr (), Some (?dp, []))"
    by (simp add: Datapoint_init_def as_DPTID_def generic_def)
  have c: "data (?dp\<lparr>data := Some 1\<rparr>) = Some 1"
    by simp
  show ?thesis
    using i c
      Datapoint_value_get
        [where dp = "?dp\<lparr>data := Some 1\<rparr>" and d = 1 and tr = "[]"
           and mkDPTID = "\<lambda>s. Inr (DPTID ''1'' ''xxx'')" and mkFlags = "\<lambda>s. Inr (Flags s)"
           and mkPriority = Inr and create = "\<lambda>i. Inr ?xl" and own = 0
           and nm = "''PID_TEST''" and acc = "''output''" and dptIdA = "OfStr ''1.xxx''"
           and fl = "None :: string option" and pr = "None :: priority option"
           and s = "(?dp, [])"]
    by simp
qed

text \<open>
  C8. Take a Datapoint whose old value can be read, and data \<open>d\<close> that passes
  \<open>checkData\<close> and decodes to \<open>newValue\<close>. The frame setter, given a frame that
  \<open>frameToData\<close> decodes to \<open>d\<close>, caches \<open>d\<close> and notifies the owner with
  \<open>(oldValue, newValue)\<close>, and that is its only notification; whether it succeeds or
  raises, it never emits the change signal. The value setter, given a value that passes
  \<open>checkValue\<close> and encodes to \<open>d\<close>, caches \<open>d\<close>, emits the change signal with
  \<open>(oldValue, newValue)\<close> and then notifies the owner with the same pair.
\<close>

theorem Datapoint_setters_notify:
  assumes "value_get (dp, tr) = (Inr oldValue, (dp, tr0))"
    and "checkData (dptXlator dp) d = None"
    and "dataToValue (dptXlator dp) d = Inr newValue"
  shows "(frameToData (dptXlator dp) fr = Inr d \<longrightarrow>
            frame_set fr (dp, tr)
              = (Inr (), (dp\<lparr>data := Some d\<rparr>,
                   tr0 @ [Call_frameToData fr, Call_checkData d, Call_dataToValue d,
                          Owner_notify (owner dp) (name dp) oldValue (Some newValue)])))
         \<and> filter is_signal (snd (snd (frame_set fr (dp, tr)))) = filter is_signal tr
         \<and> (checkValue (dptXlator dp) v = None \<and> valueToData (dptXlator dp) v = Inr d \<longrightarrow>
            value_set v (dp, tr)
              = (Inr (), (dp\<lparr>data := Some d\<rparr>,
                   tr0 @ [Call_checkValue v, Call_valueToData v, Call_checkData d,
                          Call_dataToValue d, SignalChanged_emit oldValue (Some newValue),
                          Call_dataToValue d,
                          Owner_notify (owner dp) (name dp) oldValue (Some newValue)])))"
proof (intro conjI impI)
  assume "frameToData (dptXlator dp) fr = Inr d"
  then show "frame_set fr (dp, tr)
      = (Inr (), (dp\<lparr>data := Some d\<rparr>,
           tr0 @ [Call_frameToData fr, Call_checkData d, Call_dataToValue d,
                  Owner_notify (owner dp) (name dp) oldValue (Some newValue)]))"
    using assms by (intro frame_set_ok)
next
  show "filter is_signal (snd (snd (frame_set fr (dp, tr)))) = filter is_signal tr"
    by (rule frame_set_no_signal)
next
  assume "checkValue (dptXlator dp) v = None \<and> valueToData (dptXlator dp) v = Inr d"
  then show "value_set v (dp, tr)
      = (Inr (), (dp\<lparr>data := Some d\<rparr>,
           tr0 @ [Call_checkValue v, Call_valueToData v, Call_checkData d,
                  Call_dataToValue d, SignalChanged_emit oldValue (Some newValue),
                  Call_dataToValue d,
                  Owner_notify (owner dp) (name dp) oldValue (Some newValue)]))"
    using assms by (intro value_set_ok) simp_all
qed

theorem Datapoint_setters_notify_witness:
  "filter (\<lambda>e. is_signal e \<or> is_notify e)
     (snd (snd (frame_set (1 :: nat)
       (\<lparr>owner = 4, name = ''PID_TEST'', dptId = DPTID ''1'' ''xxx'', access = ''input'',
         default_value = None, data = Some 0, flags = None, dp_priority = None,
         dptXlator =
           \<lparr>checkValue = (\<lambda>v :: nat. None), valueToData = Inr, dataToValue = Inr,
            checkData = (\<lambda>d :: nat. None), frameToData = Inr, dataToFrame = Inr,
            typeSize = 0\<rparr>,
         dptXlatorGeneric =
           \<lparr>checkValue = (\<lambda>v :: nat. None), valueToData = Inr, dataToValue = Inr,
            checkData = (\<lambda>d :: nat. None), frameToData = Inr, dataToFrame = Inr,
            typeSize = 0\<rparr>\<rparr>, []))))
     = [Owner_notify 4 ''PID_TEST'' (Some 0) (Some 1)]
   \<and> filter (\<lambda>e. is_signal e \<or> is_notify e)
     (snd (snd (value_set (1 :: nat)
       (\<lparr>owner = 4, name = ''PID_TEST'', dptId = DPTID ''1'' ''xxx'', access = ''input'',
         default_value = None, data = Some 0, flags = None, dp_priority = None,
         dptXlator =
           \<lparr>checkValue = (\<lambda>v :: nat. None), valueToData = Inr, dataToValue = Inr,
            checkData = (\<lambda>d :: nat. None), frameToData = (Inr :: nat \<Rightarrow> error + nat),
            dataToFrame = Inr, typeSize = 0\<rparr>,
         dptXlatorGeneric =
           \<lparr>checkValue = (\<lambda>v :: nat. None), valueToData = Inr, dataToValue = Inr,
            checkData = (\<lambda>d :: nat. None), frameToData = Inr, dataToFrame = Inr,
            typeSize = 0\<rparr>\<rparr>, []))))
     = [SignalChanged_emit (Some 0) (Some 1), Owner_notify 4 ''PID_TEST'' (Some 0) (Some 1)]"
proof -
  let ?xl = "\<lparr>checkValue = (\<lambda>v :: nat. None), valueToData = Inr, dataToValue = Inr,
              checkData = (\<lambda>d :: nat. None), frameToData = (Inr :: nat \<Rightarrow> error + nat),
              dataToFrame = Inr, typeSize = 0\<rparr>"
  let ?dp = "\<lparr>owner = 4, name = ''PID_TEST'', dptId = DPTID ''1'' ''xxx'', access = ''input'',
              default_value = None, data = Some 0, flags = None, dp_priority = None,
              dptXlator = ?xl, dptXlatorGeneric = ?xl\<rparr>"
  have old: "value_get (?dp, []) = (Inr (Some 0), (?dp, [Call_dataToValue 0]))"
    by (simp add: value_get_cached)
  have cd: "checkData (dptXlator ?dp) 1 = None"
    by simp
  have dv: "dataToValue (dptXlator ?dp) 1 = Inr 1"
    by simp
  show ?thesis
    using Datapoint_setters_notify [OF old cd dv, of 1 1]
    by simp
qed

end
